theory Spec2Isabelle
  imports Complex_Main "HOL-Library.Char_ord" "HOL-Library.List_Lexorder" "HOL-Library.Multiset"
begin

section \<open>The shop backend of app.py\<close>

text \<open>
  app.py is one module: three SQLite tables, a seed run at import time, two read helpers,
  a wrapper around the KHQR and QR-image libraries, and four request handlers. The model
  keeps the database as a record of three tables, each the list of its rows in insertion
  order, and passes it through every handler explicitly. What the module takes from
  outside (the KHQR library, the image library, the clock, the random generator) is an
  input of the model.
\<close>

subsection \<open>Tables\<close>

text \<open>
  A \<open>REAL\<close> column and a Python \<open>float\<close> hold the same IEEE double; the program never
  computes with a price, it stores it, reads it back and hands it on. A price is modelled
  by the number it stands for.
\<close>

type_synonym price = real

text \<open>\<open>users(user_id INTEGER PRIMARY KEY, username TEXT, balance REAL, is_reseller INTEGER)\<close>\<close>

record user_row =
  u_user_id :: int
  u_username :: string
  u_balance :: price
  u_is_reseller :: int

text \<open>\<open>item_prices(item_id TEXT PRIMARY KEY, game TEXT, normal_price REAL, reseller_price REAL)\<close>\<close>

record item_row =
  i_item_id :: string
  i_game :: string
  i_normal_price :: price
  i_reseller_price :: price

text \<open>
  \<open>orders(order_id TEXT PRIMARY KEY, user_id, game, item_id, amount, server_id, zone_id, md5,
  status, payment_response, created_at, paid_at)\<close>. The insert of \<open>buy\<close> names ten of the
  twelve columns; \<open>payment_response\<close> and \<open>paid_at\<close> are left \<open>NULL\<close>, which is \<open>None\<close>.
\<close>

record order_row =
  o_order_id :: string
  o_user_id :: int
  o_game :: string
  o_item_id :: string
  o_amount :: price
  o_server_id :: string
  o_zone_id :: string
  o_md5 :: string
  o_status :: string
  o_payment_response :: "string option"
  o_created_at :: string
  o_paid_at :: "string option"

record db =
  tbl_users :: "user_row list"
  tbl_item_prices :: "item_row list"
  tbl_orders :: "order_row list"

text \<open>The primary keys of the three tables: no two rows of a table share the key.\<close>

definition primary_keys :: "db \<Rightarrow> bool" where
  "primary_keys d =
     (distinct (map u_user_id (tbl_users d)) \<and>
      distinct (map i_item_id (tbl_item_prices d)) \<and>
      distinct (map o_order_id (tbl_orders d)))"

text \<open>\<open>cursor.fetchone()\<close>: the first row of the result, or \<open>None\<close>.\<close>

definition fetchone :: "'a list \<Rightarrow> 'a option" where
  "fetchone rows = (case rows of [] \<Rightarrow> None | r # _ \<Rightarrow> Some r)"

subsection \<open>Errors and responses\<close>

text \<open>
  \<open>HTTPException\<close> carries the status code and the detail. \<open>IntegrityError\<close> is what
  \<open>sqlite3\<close> raises when an \<open>INSERT\<close> breaks a primary key; no handler catches it.
\<close>

datatype error = HTTPException nat string | IntegrityError

datatype json = JNull | JString string | JObject "(string \<times> json) list"

record price_tiers =
  normal :: price
  reseller :: price

text \<open>The nine columns the order list selects, in the order of the \<open>SELECT\<close>.\<close>

record order_summary =
  s_order_id :: string
  s_game :: string
  s_item_id :: string
  s_amount :: price
  s_server_id :: string
  s_zone_id :: string
  s_status :: string
  s_created_at :: string
  s_paid_at :: "string option"

text \<open>
  A response is a JSON body with its status code, or one of the three templates with the
  context the handler passes to it (the \<open>request\<close> entry of the context is left out).
\<close>

datatype response =
    JSONResponse nat json
  | Mlbb_html "string \<rightharpoonup> price_tiers" "string \<rightharpoonup> price_tiers" bool
  | Deposit_html string string price
  | Orders_html "order_summary list"

subsection \<open>Helpers\<close>

text \<open>
  The random generator is the sequence of numbers it is going to yield. \<open>random.choices\<close>
  draws \<open>k\<close> times; each draw picks the element at some index below the length of the
  population, here the next number of the sequence reduced modulo that length. Its only
  caller passes the 36 characters below, so the index is always in range.
\<close>

type_synonym rng = "nat \<Rightarrow> nat"

definition random_choices :: "'a list \<Rightarrow> nat \<Rightarrow> rng \<Rightarrow> 'a list \<times> rng" where
  "random_choices population k g =
     (map (\<lambda>i. population ! (g i mod length population)) [0..<k], \<lambda>i. g (i + k))"

definition ascii_uppercase :: string where
  "ascii_uppercase = ''ABCDEFGHIJKLMNOPQRSTUVWXYZ''"

definition digits :: string where
  "digits = ''0123456789''"

definition generate_short_transaction_id :: "rng \<Rightarrow> string \<times> rng" where
  "generate_short_transaction_id g = random_choices (ascii_uppercase @ digits) 8 g"

subsection \<open>Database\<close>

text \<open>
  \<open>INSERT OR IGNORE INTO item_prices\<close>: a row whose \<open>item_id\<close> is already in the table is
  skipped, any other row is appended. \<open>executemany\<close> runs the statement for each row of
  the list in turn.
\<close>

definition insert_or_ignore :: "item_row \<Rightarrow> item_row list \<Rightarrow> item_row list" where
  "insert_or_ignore r tbl =
     (if i_item_id r \<in> set (map i_item_id tbl) then tbl else tbl @ [r])"

definition executemany :: "item_row list \<Rightarrow> item_row list \<Rightarrow> item_row list" where
  "executemany rows tbl = fold insert_or_ignore rows tbl"

definition items :: "item_row list" where
  "items =
     [\<lparr>i_item_id = ''86_DIAMOND'', i_game = ''MLBB'', i_normal_price = 0.03, i_reseller_price = 0.03\<rparr>,
      \<lparr>i_item_id = ''172_DIAMAND'', i_game = ''MLBB'', i_normal_price = 0.03, i_reseller_price = 0.03\<rparr>,
      \<lparr>i_item_id = ''344_DIAMOND'', i_game = ''MLBB'', i_normal_price = 6.4, i_reseller_price = 5.6\<rparr>,
      \<lparr>i_item_id = ''429_DIAMOND'', i_game = ''MLBB'', i_normal_price = 8.0, i_reseller_price = 7.0\<rparr>,
      \<lparr>i_item_id = ''50_DIAMOND'', i_game = ''FF'', i_normal_price = 1.0, i_reseller_price = 0.85\<rparr>,
      \<lparr>i_item_id = ''100_DIAMOND'', i_game = ''FF'', i_normal_price = 2.0, i_reseller_price = 1.7\<rparr>]"

text \<open>
  \<open>init_db\<close>: the three \<open>CREATE TABLE IF NOT EXISTS\<close> leave existing tables as they are (a
  database that does not exist yet is the one with three empty tables), then the seed.
\<close>

definition init_db :: "db \<Rightarrow> db" where
  "init_db d = d\<lparr>tbl_item_prices := executemany items (tbl_item_prices d)\<rparr>"

definition empty_db :: db where
  "empty_db = \<lparr>tbl_users = [], tbl_item_prices = [], tbl_orders = []\<rparr>"

text \<open>\<open>INSERT INTO orders\<close>: refused when the \<open>order_id\<close> is already in the table.\<close>

definition insert_order :: "order_row \<Rightarrow> order_row list \<Rightarrow> error + order_row list" where
  "insert_order r tbl =
     (if o_order_id r \<in> set (map o_order_id tbl) then Inl IntegrityError else Inr (tbl @ [r]))"

subsection \<open>Item and user functions\<close>

text \<open>
  \<open>get_item_prices\<close> builds a dictionary from the rows of one game; in a dictionary
  comprehension a later row with the same key replaces an earlier one.
\<close>

definition get_item_prices :: "db \<Rightarrow> string \<Rightarrow> (string \<rightharpoonup> price_tiers)" where
  "get_item_prices d game =
     (let rows = filter (\<lambda>r. i_game r = game) (tbl_item_prices d)
      in fold (\<lambda>r m. m(i_item_id r \<mapsto> \<lparr>normal = i_normal_price r, reseller = i_reseller_price r\<rparr>))
           rows Map.empty)"

definition is_reseller :: "db \<Rightarrow> int \<Rightarrow> bool" where
  "is_reseller d user_id =
     (let result = fetchone (map u_is_reseller (filter (\<lambda>u. u_user_id u = user_id) (tbl_users d)))
      in case result of Some flag \<Rightarrow> flag = 1 | None \<Rightarrow> False)"

subsection \<open>QR generation\<close>

text \<open>
  The libraries the module calls, as functions of what it passes to them. \<open>None\<close> is a
  raised exception. \<open>khqr_create_qr\<close> takes the amount and the bill number (every other
  argument is a constant of the module); \<open>qrcode_png\<close> is \<open>qrcode.make\<close> followed by
  \<open>img.save\<close> into the buffer; \<open>now_iso\<close> is the clock read in the configured time zone.
\<close>

record env =
  khqr_create_qr :: "price \<Rightarrow> string \<Rightarrow> string option"
  qrcode_png :: "string \<Rightarrow> string option"
  khqr_generate_md5 :: "string \<Rightarrow> string option"
  b64encode :: "string \<Rightarrow> string"
  now_iso :: string

text \<open>
  The bill number is drawn while the arguments of \<open>create_qr\<close> are evaluated, so the eight
  draws are made whether or not a later step raises. Every exception inside the \<open>try\<close>
  ends in \<open>return None, None\<close>.
\<close>

definition generate_qr_code :: "env \<Rightarrow> price \<Rightarrow> rng \<Rightarrow> (string option \<times> string option) \<times> rng" where
  "generate_qr_code e amount g =
     (let (bill_number, g') = generate_short_transaction_id g
      in (case khqr_create_qr e amount bill_number of
            None \<Rightarrow> (None, None)
          | Some qr_payload \<Rightarrow>
              (case qrcode_png e qr_payload of
                 None \<Rightarrow> (None, None)
               | Some png \<Rightarrow>
                   (case khqr_generate_md5 e qr_payload of
                      None \<Rightarrow> (None, None)
                    | Some md5_hash \<Rightarrow> (Some (b64encode e png), Some md5_hash))), g'))"

subsection \<open>Routes\<close>

text \<open>
  Python's \<open>not x\<close> on an optional string holds for \<open>None\<close> and for the empty string;
  \<open>truthy\<close> keeps the string exactly when \<open>not x\<close> is false.
\<close>

definition truthy :: "string option \<Rightarrow> string option" where
  "truthy x = (case x of None \<Rightarrow> None | Some s \<Rightarrow> if s = [] then None else Some s)"

definition home :: "db \<Rightarrow> response" where
  "home d =
     (let user_id = 1;
          ml_items = get_item_prices d ''MLBB'';
          ff_items = get_item_prices d ''FF''
      in Mlbb_html ml_items ff_items (is_reseller d user_id))"

text \<open>
  \<open>buy\<close>: the price lookup (404 when there is no row), the QR code (500 when either part
  is missing or empty), a fresh order id, the insert. An exception leaves the database
  as it was: the insert is the only write, and a refused insert writes nothing.
\<close>

definition buy ::
  "env \<Rightarrow> string \<Rightarrow> string \<Rightarrow> string \<Rightarrow> string \<Rightarrow> db \<times> rng \<Rightarrow> (error + response) \<times> (db \<times> rng)" where
  "buy e game item_id server_id zone_id st =
     (case st of (d, g) \<Rightarrow>
      let user_id = 1;
          row = fetchone (map i_normal_price
                  (filter (\<lambda>r. i_item_id r = item_id \<and> i_game r = game) (tbl_item_prices d)))
      in (case row of
           None \<Rightarrow> (Inl (HTTPException 404 ''Item not found''), (d, g))
         | Some amount \<Rightarrow>
             (case generate_qr_code e amount g of
                ((qr_b64, md5), g1) \<Rightarrow>
                  (case (truthy qr_b64, truthy md5) of
                     (Some qr, Some md5_hash) \<Rightarrow>
                       (case generate_short_transaction_id g1 of
                          (order_id, g2) \<Rightarrow>
                            (let created_at = now_iso e;
                                 new_row = \<lparr>o_order_id = order_id, o_user_id = user_id, o_game = game,
                                    o_item_id = item_id, o_amount = amount, o_server_id = server_id,
                                    o_zone_id = zone_id, o_md5 = md5_hash, o_status = ''UNPAID'',
                                    o_payment_response = None, o_created_at = created_at,
                                    o_paid_at = None\<rparr>
                             in case insert_order new_row (tbl_orders d) of
                                  Inl err \<Rightarrow> (Inl err, (d, g2))
                                | Inr tbl \<Rightarrow>
                                    (Inr (Deposit_html qr order_id amount),
                                     (d\<lparr>tbl_orders := tbl\<rparr>, g2))))
                   | _ \<Rightarrow> (Inl (HTTPException 500 ''Failed to generate QR''), (d, g1))))))"

definition opt_json :: "string option \<Rightarrow> json" where
  "opt_json x = (case x of None \<Rightarrow> JNull | Some s \<Rightarrow> JString s)"

text \<open>A handler that returns a dictionary answers with status 200.\<close>

definition order_status :: "db \<Rightarrow> string \<Rightarrow> response" where
  "order_status d order_id =
     (let r = fetchone (filter (\<lambda>row. o_order_id row = order_id) (tbl_orders d))
      in case r of
           None \<Rightarrow> JSONResponse 404 (JObject [(''error'', JString ''not found'')])
         | Some row \<Rightarrow>
             JSONResponse 200 (JObject [(''status'', JString (o_status row)),
               (''payment_response'', opt_json (o_payment_response row)),
               (''paid_at'', opt_json (o_paid_at row))]))"

definition summary :: "order_row \<Rightarrow> order_summary" where
  "summary r =
     \<lparr>s_order_id = o_order_id r, s_game = o_game r, s_item_id = o_item_id r,
      s_amount = o_amount r, s_server_id = o_server_id r, s_zone_id = o_zone_id r,
      s_status = o_status r, s_created_at = o_created_at r, s_paid_at = o_paid_at r\<rparr>"

text \<open>
  \<open>ORDER BY created_at DESC\<close> compares the texts byte by byte. SQL leaves the order of
  rows with equal \<open>created_at\<close> open; the model takes one such order.
\<close>

definition order_by_created_at_desc :: "order_row list \<Rightarrow> order_row list" where
  "order_by_created_at_desc rows = rev (sort_key o_created_at rows)"

definition orders :: "db \<Rightarrow> response" where
  "orders d =
     (let user_id = 1;
          rows = order_by_created_at_desc (filter (\<lambda>r. o_user_id r = user_id) (tbl_orders d))
      in Orders_html (map summary rows))"

text \<open>The four routes of the application, on the database and the random generator.\<close>

datatype request =
    GET_home
  | POST_buy string string string string
  | GET_order_status string
  | GET_orders

fun handle :: "env \<Rightarrow> request \<Rightarrow> db \<times> rng \<Rightarrow> (error + response) \<times> (db \<times> rng)" where
  "handle e GET_home st = (Inr (home (fst st)), st)"
| "handle e (POST_buy game item_id server_id zone_id) st = buy e game item_id server_id zone_id st"
| "handle e (GET_order_status order_id) st = (Inr (order_status (fst st) order_id), st)"
| "handle e GET_orders st = (Inr (orders (fst st)), st)"

subsection \<open>Vocabulary of the properties\<close>

text \<open>The pattern \<open>[A-Z0-9]{8}\<close>: eight characters, each an upper-case letter or a digit.\<close>

definition upper_or_digit :: "char \<Rightarrow> bool" where
  "upper_or_digit c = ((CHR ''A'' \<le> c \<and> c \<le> CHR ''Z'') \<or> (CHR ''0'' \<le> c \<and> c \<le> CHR ''9''))"

definition matches_pattern :: "string \<Rightarrow> bool" where
  "matches_pattern s = (length s = 8 \<and> list_all upper_or_digit s)"

text \<open>What the status route shows of an order row, with the key it is found by.\<close>

definition status_columns :: "order_row \<Rightarrow> string \<times> string \<times> string option \<times> string option" where
  "status_columns r = (o_order_id r, o_status r, o_payment_response r, o_paid_at r)"

subsection \<open>Sample data\<close>

text \<open>
  Concrete tables, collaborators and random sequences on which the theorems below are
  instantiated: a KHQR library that answers, one that raises, the seeded catalog, the
  catalog after a price edit, and three orders of two users.
\<close>

definition users0 :: "user_row list" where
  "users0 = [\<lparr>u_user_id = 1, u_username = ''demo'', u_balance = 0, u_is_reseller = 1\<rparr>,
             \<lparr>u_user_id = 2, u_username = ''other'', u_balance = 0, u_is_reseller = 0\<rparr>]"

definition env0 :: env where
  "env0 = \<lparr>khqr_create_qr = (\<lambda>amount bill_number. Some (''00020101021229'' @ bill_number)),
            qrcode_png = (\<lambda>payload. Some (''PNG'' @ payload)),
            khqr_generate_md5 = (\<lambda>payload. Some ''0cc175b9c0f1b6a831c399e269772661''),
            b64encode = (\<lambda>bytes. ''iVBORw0KGgo=''),
            now_iso = ''2024-05-01T10:00:00+07:00''\<rparr>"

definition env_down :: env where
  "env_down = env0\<lparr>khqr_create_qr := (\<lambda>amount bill_number. None)\<rparr>"

definition rng0 :: rng where
  "rng0 = (\<lambda>i. i)"

definition rng_same :: rng where
  "rng_same = (\<lambda>i. 0)"

definition db0 :: db where
  "db0 = init_db empty_db"

definition item0 :: item_row where
  "item0 = \<lparr>i_item_id = ''86_DIAMOND'', i_game = ''MLBB'', i_normal_price = 0.03, i_reseller_price = 0.03\<rparr>"

definition item1 :: item_row where
  "item1 = \<lparr>i_item_id = ''344_DIAMOND'', i_game = ''MLBB'', i_normal_price = 6.4, i_reseller_price = 5.6\<rparr>"

definition db_edited :: db where
  "db_edited = db0\<lparr>tbl_item_prices :=
     map (\<lambda>r. if i_item_id r = ''86_DIAMOND'' then r\<lparr>i_normal_price := 0.05\<rparr> else r)
       (tbl_item_prices db0)\<rparr>"

definition order1 :: order_row where
  "order1 = \<lparr>o_order_id = ''7Q2MZK4A'', o_user_id = 1, o_game = ''MLBB'', o_item_id = ''86_DIAMOND'',
     o_amount = 0.03, o_server_id = ''1234'', o_zone_id = ''5'', o_md5 = ''0cc175b9c0f1b6a831c399e269772661'',
     o_status = ''UNPAID'', o_payment_response = None, o_created_at = ''2024-05-01T10:00:00+07:00'',
     o_paid_at = None\<rparr>"

definition order2 :: order_row where
  "order2 = \<lparr>o_order_id = ''B81XW0PD'', o_user_id = 2, o_game = ''FF'', o_item_id = ''50_DIAMOND'',
     o_amount = 1.0, o_server_id = ''77'', o_zone_id = ''1'', o_md5 = ''92eb5ffee6ae2fec3ad71c777531578f'',
     o_status = ''PAID'', o_payment_response = Some ''{}'', o_created_at = ''2024-05-02T09:30:00+07:00'',
     o_paid_at = Some ''2024-05-02T09:31:12+07:00''\<rparr>"

definition order3 :: order_row where
  "order3 = \<lparr>o_order_id = ''K3L9TT2C'', o_user_id = 1, o_game = ''FF'', o_item_id = ''100_DIAMOND'',
     o_amount = 2.0, o_server_id = ''1234'', o_zone_id = ''5'', o_md5 = ''4a8a08f09d37b73795649038408b5f33'',
     o_status = ''UNPAID'', o_payment_response = None, o_created_at = ''2024-05-03T18:45:10.250000+07:00'',
     o_paid_at = None\<rparr>"

definition db_orders :: db where
  "db_orders = db0\<lparr>tbl_orders := [order1, order2, order3]\<rparr>"

definition req0 :: request where
  "req0 = POST_buy ''MLBB'' ''344_DIAMOND'' ''1234'' ''5''"

text \<open>
  The state after one purchase from the seeded catalog when every draw of the random
  generator gives the same number.
\<close>

definition st1 :: "db \<times> rng" where
  "st1 = snd (buy env0 ''MLBB'' ''86_DIAMOND'' ''1234'' ''5'' (db0, rng_same))"

section \<open>Properties\<close>

lemmas eval_defs = init_db_def executemany_def insert_or_ignore_def items_def empty_db_def
  db0_def item0_def env0_def env_down_def rng0_def rng_same_def
  generate_short_transaction_id_def random_choices_def ascii_uppercase_def digits_def
  generate_qr_code_def upt_conv_Cons

lemmas buy_eval = eval_defs buy_def fetchone_def truthy_def insert_order_def st1_def

lemmas sample_defs = item1_def db_edited_def order1_def order2_def order3_def db_orders_def req0_def

subsection \<open>Rows and keys\<close>

lemma filter_key_distinct:
  "distinct (map f xs) \<Longrightarrow> x \<in> set xs \<Longrightarrow> filter (\<lambda>y. f y = f x) xs = [x]"
proof (induction xs)
  case Nil
  then show ?case by simp
next
  case (Cons a xs)
  show ?case
  proof (cases "a = x")
    case True
    with Cons.prems have "f x \<notin> f ` set xs" by simp
    then have "\<And>y. y \<in> set xs \<Longrightarrow> f y \<noteq> f x" by (metis imageI)
    then have "filter (\<lambda>y. f y = f x) xs = []"
      by (simp add: filter_empty_conv)
    with True show ?thesis by simp
  next
    case False
    with Cons.prems have x: "x \<in> set xs" by simp
    from Cons.prems have d: "distinct (map f xs)" and a: "f a \<notin> f ` set xs" by simp_all
    from a x have "f a \<noteq> f x" by (metis imageI)
    with Cons.IH [OF d x] show ?thesis by simp
  qed
qed

lemma fetchone_None: "fetchone rows = None \<longleftrightarrow> rows = []"
  by (simp add: fetchone_def split: list.splits)

lemma fetchone_filter_None:
  "fetchone (filter P rows) = None \<longleftrightarrow> (\<forall>r \<in> set rows. \<not> P r)"
  by (simp add: fetchone_None filter_empty_conv)

lemma filter_key_absent:
  "k \<notin> set (map f xs) \<Longrightarrow> filter (\<lambda>y. f y = k) xs = []"
  by (induction xs) auto

lemma select_price_key:
  assumes "distinct (map i_item_id tbl)" and "r \<in> set tbl"
  shows "fetchone (map i_normal_price
           (filter (\<lambda>x. i_item_id x = i_item_id r \<and> i_game x = i_game r) tbl))
         = Some (i_normal_price r)"
proof -
  have "filter (\<lambda>x. i_item_id x = i_item_id r \<and> i_game x = i_game r) tbl
      = filter (\<lambda>x. i_game x = i_game r) (filter (\<lambda>x. i_item_id x = i_item_id r) tbl)"
    by (simp add: conj_commute)
  also have "\<dots> = [r]"
    by (simp add: filter_key_distinct [OF assms])
  finally show ?thesis by (simp add: fetchone_def)
qed

lemma select_price_None:
  "fetchone (map i_normal_price (filter P tbl)) = None \<longleftrightarrow> (\<forall>r \<in> set tbl. \<not> P r)"
  by (simp add: fetchone_None filter_empty_conv)

subsection \<open>Order ids\<close>

lemma alphabet_upper_or_digit: "list_all upper_or_digit (ascii_uppercase @ digits)"
  by (simp add: ascii_uppercase_def digits_def upper_or_digit_def)

lemma random_choices_length: "length (fst (random_choices population k g)) = k"
  by (simp add: random_choices_def)

lemma random_choices_set:
  "population \<noteq> [] \<Longrightarrow> set (fst (random_choices population k g)) \<subseteq> set population"
  by (auto simp: random_choices_def)

lemma generate_short_transaction_id_pattern:
  "matches_pattern (fst (generate_short_transaction_id g))"
proof -
  let ?pop = "ascii_uppercase @ digits"
  have ne: "?pop \<noteq> []" by (simp add: ascii_uppercase_def)
  have "set (fst (random_choices ?pop 8 g)) \<subseteq> set ?pop"
    by (rule random_choices_set [OF ne])
  moreover have "\<forall>c \<in> set ?pop. upper_or_digit c"
    using alphabet_upper_or_digit by (simp only: list_all_iff)
  ultimately have "\<forall>c \<in> set (fst (random_choices ?pop 8 g)). upper_or_digit c"
    by blast
  then show ?thesis
    by (simp add: matches_pattern_def generate_short_transaction_id_def
        random_choices_length list_all_iff)
qed

subsection \<open>The purchase, case by case\<close>

text \<open>
  Once the price is found, the outcome of \<open>buy\<close> is decided by the two parts of the QR
  result and by whether the fresh order id is already a key of the orders table.
\<close>

lemma truthy_Some: "truthy x = Some s \<longleftrightarrow> x = Some s \<and> s \<noteq> []"
  by (auto simp: truthy_def split: option.splits)

lemma buy_found:
  assumes "fetchone (map i_normal_price
      (filter (\<lambda>r. i_item_id r = item_id \<and> i_game r = game) (tbl_item_prices d))) = Some amount"
    and "generate_qr_code e amount g = ((qr_b64, md5), g1)"
    and "generate_short_transaction_id g1 = (order_id, g2)"
  shows "buy e game item_id server_id zone_id (d, g) =
     (case (truthy qr_b64, truthy md5) of
        (Some qr, Some md5_hash) \<Rightarrow>
          (if order_id \<in> set (map o_order_id (tbl_orders d)) then (Inl IntegrityError, (d, g2))
           else (Inr (Deposit_html qr order_id amount),
                 (d\<lparr>tbl_orders := tbl_orders d @
                     [\<lparr>o_order_id = order_id, o_user_id = 1, o_game = game, o_item_id = item_id,
                       o_amount = amount, o_server_id = server_id, o_zone_id = zone_id,
                       o_md5 = md5_hash, o_status = ''UNPAID'', o_payment_response = None,
                       o_created_at = now_iso e, o_paid_at = None\<rparr>]\<rparr>, g2)))
      | _ \<Rightarrow> (Inl (HTTPException 500 ''Failed to generate QR''), (d, g1)))"
  using assms
  by (simp add: buy_def insert_order_def split: option.splits)

lemma buy_Inr:
  assumes "buy e game item_id server_id zone_id (d, g) = (Inr resp, (d', g'))"
  shows "\<exists>amount qr md5_hash g1 order_id.
      fetchone (map i_normal_price
        (filter (\<lambda>r. i_item_id r = item_id \<and> i_game r = game) (tbl_item_prices d))) = Some amount \<and>
      generate_qr_code e amount g = ((Some qr, Some md5_hash), g1) \<and> qr \<noteq> [] \<and> md5_hash \<noteq> [] \<and>
      generate_short_transaction_id g1 = (order_id, g') \<and>
      order_id \<notin> set (map o_order_id (tbl_orders d)) \<and>
      resp = Deposit_html qr order_id amount \<and>
      d' = d\<lparr>tbl_orders := tbl_orders d @
             [\<lparr>o_order_id = order_id, o_user_id = 1, o_game = game, o_item_id = item_id,
               o_amount = amount, o_server_id = server_id, o_zone_id = zone_id,
               o_md5 = md5_hash, o_status = ''UNPAID'', o_payment_response = None,
               o_created_at = now_iso e, o_paid_at = None\<rparr>]\<rparr>"
proof -
  let ?sel = "fetchone (map i_normal_price
        (filter (\<lambda>r. i_item_id r = item_id \<and> i_game r = game) (tbl_item_prices d)))"
  from assms obtain amount where sel: "?sel = Some amount"
    by (cases ?sel) (simp_all add: buy_def)
  obtain qr_b64 md5 g1 where q: "generate_qr_code e amount g = ((qr_b64, md5), g1)"
    by (metis surj_pair)
  obtain order_id g2 where o: "generate_short_transaction_id g1 = (order_id, g2)"
    by (metis surj_pair)
  note b = buy_found [OF sel q o, of server_id zone_id]
  from assms b obtain qr md5_hash where t: "truthy qr_b64 = Some qr" "truthy md5 = Some md5_hash"
    by (cases "truthy qr_b64"; cases "truthy md5") simp_all
  from assms b t have fresh: "order_id \<notin> set (map o_order_id (tbl_orders d))"
    by (auto split: if_splits)
  from assms b t fresh have "resp = Deposit_html qr order_id amount" "g' = g2"
    and "d' = d\<lparr>tbl_orders := tbl_orders d @
             [\<lparr>o_order_id = order_id, o_user_id = 1, o_game = game, o_item_id = item_id,
               o_amount = amount, o_server_id = server_id, o_zone_id = zone_id,
               o_md5 = md5_hash, o_status = ''UNPAID'', o_payment_response = None,
               o_created_at = now_iso e, o_paid_at = None\<rparr>]\<rparr>"
    by simp_all
  with sel q o t fresh show ?thesis
    by (simp add: truthy_Some)
qed

lemma buy_Inl:
  assumes "buy e game item_id server_id zone_id (d, g) = (Inl err, (d', g'))"
  shows "d' = d"
proof -
  let ?sel = "fetchone (map i_normal_price
        (filter (\<lambda>r. i_item_id r = item_id \<and> i_game r = game) (tbl_item_prices d)))"
  show ?thesis
  proof (cases ?sel)
    case None
    with assms show ?thesis by (simp add: buy_def)
  next
    case (Some amount)
    obtain qr_b64 md5 g1 where q: "generate_qr_code e amount g = ((qr_b64, md5), g1)"
      by (metis surj_pair)
    obtain order_id g2 where o: "generate_short_transaction_id g1 = (order_id, g2)"
      by (metis surj_pair)
    note b = buy_found [OF Some q o, of server_id zone_id]
    from assms b show ?thesis
      by (cases "truthy qr_b64"; cases "truthy md5") (simp_all split: if_splits)
  qed
qed

text \<open>
  When the fresh order id is already a key of the orders table the insert is refused:
  the purchase ends in \<open>IntegrityError\<close> and nothing is written.
\<close>

lemma buy_collision:
  assumes "distinct (map i_item_id (tbl_item_prices d))" and "r \<in> set (tbl_item_prices d)"
    and "generate_qr_code e (i_normal_price r) g = ((Some qr, Some md5_hash), g1)"
    and "qr \<noteq> []" "md5_hash \<noteq> []"
    and "generate_short_transaction_id g1 = (order_id, g2)"
    and "order_id \<in> set (map o_order_id (tbl_orders d))"
  shows "buy e (i_game r) (i_item_id r) server_id zone_id (d, g) = (Inl IntegrityError, (d, g2))"
  using buy_found [OF select_price_key [OF assms(1,2)] assms(3) assms(6), of server_id zone_id]
    assms(4,5,7)
  by (simp add: truthy_def)

subsection \<open>Creating an order\<close>

text \<open>
  The statement "whenever the item is in the catalog and the QR code is generated, the
  purchase returns an order id and stores the order" does not hold as it stands: the
  order id is drawn at random and never compared with the stored ones, and the table
  refuses a second row with the same key. Two purchases in a row from the seeded catalog,
  with a generator that repeats itself: the item is in the catalog, the QR code is
  generated, and the second purchase ends in \<open>IntegrityError\<close> with the orders table as it
  was.
\<close>

theorem buy_order_id_collision:
  "item0 \<in> set (tbl_item_prices (fst st1)) \<and>
   i_item_id item0 = ''86_DIAMOND'' \<and> i_game item0 = ''MLBB'' \<and>
   fst (generate_qr_code env0 (i_normal_price item0) (snd st1)) =
     (Some ''iVBORw0KGgo='', Some ''0cc175b9c0f1b6a831c399e269772661'') \<and>
   fst (buy env0 ''MLBB'' ''86_DIAMOND'' ''1234'' ''5'' st1) = Inl IntegrityError \<and>
   tbl_orders (fst (snd (buy env0 ''MLBB'' ''86_DIAMOND'' ''1234'' ''5'' st1))) = tbl_orders (fst st1)"
  by (simp add: buy_eval)

text \<open>
  Claim C1, amended. For every item row of the catalog (the item id is the primary key),
  when the QR generator returns a non-empty image and a non-empty fingerprint and the
  order id drawn next is not yet a key of the orders table, \<open>buy\<close> answers with the deposit
  page for an order id that matches \<open>[A-Z0-9]{8}\<close> and appends one row with that order id
  and status \<open>UNPAID\<close>.
\<close>

theorem buy_creates_unpaid_order:
  assumes pk: "distinct (map i_item_id (tbl_item_prices d))"
    and r: "r \<in> set (tbl_item_prices d)"
    and qr: "generate_qr_code e (i_normal_price r) g = ((Some qr, Some md5_hash), g1)"
    and ne: "qr \<noteq> []" "md5_hash \<noteq> []"
    and fresh: "fst (generate_short_transaction_id g1) \<notin> set (map o_order_id (tbl_orders d))"
  shows "\<exists>order_id row g2.
      buy e (i_game r) (i_item_id r) server_id zone_id (d, g) =
        (Inr (Deposit_html qr order_id (i_normal_price r)),
         (d\<lparr>tbl_orders := tbl_orders d @ [row]\<rparr>, g2)) \<and>
      matches_pattern order_id \<and> o_order_id row = order_id \<and> o_status row = ''UNPAID''"
proof -
  obtain order_id g2 where o: "generate_short_transaction_id g1 = (order_id, g2)"
    by (metis surj_pair)
  from generate_short_transaction_id_pattern [of g1] o have pat: "matches_pattern order_id"
    by simp
  from fresh o have f: "order_id \<notin> set (map o_order_id (tbl_orders d))" by simp
  from ne have t: "truthy (Some qr) = Some qr" "truthy (Some md5_hash) = Some md5_hash"
    by (simp_all add: truthy_def)
  note b = buy_found [OF select_price_key [OF pk r] qr o, of server_id zone_id]
  let ?row = "\<lparr>o_order_id = order_id, o_user_id = 1, o_game = i_game r, o_item_id = i_item_id r,
      o_amount = i_normal_price r, o_server_id = server_id, o_zone_id = zone_id,
      o_md5 = md5_hash, o_status = ''UNPAID'', o_payment_response = None,
      o_created_at = now_iso e, o_paid_at = None\<rparr>"
  from b t f have "buy e (i_game r) (i_item_id r) server_id zone_id (d, g) =
        (Inr (Deposit_html qr order_id (i_normal_price r)),
         (d\<lparr>tbl_orders := tbl_orders d @ [?row]\<rparr>, g2))"
    by simp
  moreover have "o_order_id ?row = order_id" "o_status ?row = ''UNPAID''" by simp_all
  ultimately show ?thesis using pat by blast
qed

theorem buy_creates_unpaid_order_witness:
  "distinct (map i_item_id (tbl_item_prices db0)) \<and> item0 \<in> set (tbl_item_prices db0) \<and>
   (\<exists>order_id row g2.
      buy env0 (i_game item0) (i_item_id item0) ''1234'' ''5'' (db0, rng0) =
        (Inr (Deposit_html ''iVBORw0KGgo='' order_id (i_normal_price item0)),
         (db0\<lparr>tbl_orders := tbl_orders db0 @ [row]\<rparr>, g2)) \<and>
      matches_pattern order_id \<and> o_order_id row = order_id \<and> o_status row = ''UNPAID'')"
proof -
  have pk: "distinct (map i_item_id (tbl_item_prices db0))" by (simp add: eval_defs)
  have r: "item0 \<in> set (tbl_item_prices db0)" by (simp add: eval_defs)
  have qr: "generate_qr_code env0 (i_normal_price item0) rng0 =
     ((Some ''iVBORw0KGgo='', Some ''0cc175b9c0f1b6a831c399e269772661''), (\<lambda>i. i + 8))"
    by (simp add: eval_defs)
  have fresh: "fst (generate_short_transaction_id (\<lambda>i. i + 8)) \<notin> set (map o_order_id (tbl_orders db0))"
    by (simp add: eval_defs)
  from buy_creates_unpaid_order [OF pk r qr _ _ fresh, of "''1234''" "''5''"] pk r
  show ?thesis by simp
qed

text \<open>
  Claim C2. When no row of the catalog has the given item id and game, \<open>buy\<close> raises the
  404 exception "Item not found" and the database is the one it started from.
\<close>

theorem buy_unknown_item:
  assumes "\<forall>r \<in> set (tbl_item_prices d). \<not> (i_item_id r = item_id \<and> i_game r = game)"
  shows "buy e game item_id server_id zone_id (d, g) =
           (Inl (HTTPException 404 ''Item not found''), (d, g))"
proof -
  from assms have "fetchone (map i_normal_price
      (filter (\<lambda>r. i_item_id r = item_id \<and> i_game r = game) (tbl_item_prices d))) = None"
    by (simp only: select_price_None)
  then show ?thesis by (simp add: buy_def)
qed

theorem buy_unknown_item_witness:
  "(\<exists>r \<in> set (tbl_item_prices db0). i_item_id r = ''50_DIAMOND'') \<and>
   fst (buy env0 ''MLBB'' ''50_DIAMOND'' ''1234'' ''5'' (db0, rng0)) =
     Inl (HTTPException 404 ''Item not found'') \<and>
   fst (snd (buy env0 ''MLBB'' ''50_DIAMOND'' ''1234'' ''5'' (db0, rng0))) = db0"
proof -
  have h: "\<forall>r \<in> set (tbl_item_prices db0). \<not> (i_item_id r = ''50_DIAMOND'' \<and> i_game r = ''MLBB'')"
    by (simp add: eval_defs)
  have "\<exists>r \<in> set (tbl_item_prices db0). i_item_id r = ''50_DIAMOND''"
    by (simp add: eval_defs)
  with buy_unknown_item [OF h, of env0 "''1234''" "''5''" rng0] show ?thesis by simp
qed

text \<open>
  Claim C3. When the payload construction raises, or the payload is built and the image
  rendering or the hashing raises, \<open>generate_qr_code\<close> returns \<open>(None, None)\<close>; \<open>buy\<close> for
  an item of the catalog then raises the 500 exception "Failed to generate QR" and the
  database is the one it started from.
\<close>

theorem buy_qr_failure:
  assumes pk: "distinct (map i_item_id (tbl_item_prices d))"
    and r: "r \<in> set (tbl_item_prices d)"
    and bill: "bill_number = fst (generate_short_transaction_id g)"
    and fail: "khqr_create_qr e (i_normal_price r) bill_number = None \<or>
       (\<exists>qr_payload. khqr_create_qr e (i_normal_price r) bill_number = Some qr_payload \<and>
          (qrcode_png e qr_payload = None \<or> khqr_generate_md5 e qr_payload = None))"
  shows "fst (generate_qr_code e (i_normal_price r) g) = (None, None) \<and>
     fst (buy e (i_game r) (i_item_id r) server_id zone_id (d, g)) =
       Inl (HTTPException 500 ''Failed to generate QR'') \<and>
     fst (snd (buy e (i_game r) (i_item_id r) server_id zone_id (d, g))) = d"
proof -
  obtain b g1 where id: "generate_short_transaction_id g = (b, g1)" by (metis surj_pair)
  with bill have b: "b = bill_number" by simp
  from fail have q: "generate_qr_code e (i_normal_price r) g = ((None, None), g1)"
    by (auto simp: generate_qr_code_def id b split: option.splits)
  obtain order_id g2 where o: "generate_short_transaction_id g1 = (order_id, g2)"
    by (metis surj_pair)
  from buy_found [OF select_price_key [OF pk r] q o, of server_id zone_id]
  have "buy e (i_game r) (i_item_id r) server_id zone_id (d, g) =
      (Inl (HTTPException 500 ''Failed to generate QR''), (d, g1))"
    by (simp add: truthy_def)
  with q show ?thesis by simp
qed

theorem buy_qr_failure_witness:
  "khqr_create_qr env_down (i_normal_price item0) (fst (generate_short_transaction_id rng0)) = None \<and>
   fst (generate_qr_code env_down (i_normal_price item0) rng0) = (None, None) \<and>
   fst (buy env_down (i_game item0) (i_item_id item0) ''1234'' ''5'' (db0, rng0)) =
     Inl (HTTPException 500 ''Failed to generate QR'') \<and>
   fst (snd (buy env_down (i_game item0) (i_item_id item0) ''1234'' ''5'' (db0, rng0))) = db0"
proof -
  have pk: "distinct (map i_item_id (tbl_item_prices db0))" by (simp add: eval_defs)
  have r: "item0 \<in> set (tbl_item_prices db0)" by (simp add: eval_defs)
  have f: "khqr_create_qr env_down (i_normal_price item0) (fst (generate_short_transaction_id rng0)) = None"
    by (simp add: env_down_def)
  from buy_qr_failure [OF pk r refl disjI1 [OF f], of "''1234''" "''5''"] f
  show ?thesis by simp
qed

text \<open>
  Claim C5. A successful purchase of a catalog item charges exactly the \<open>normal_price\<close> of
  its row: the amount on the deposit page and the amount of the stored order are that
  price, it differs from the reseller price whenever the two prices differ, and the
  users table (so the reseller flag of any user) has no influence on the answer.
\<close>

theorem buy_charges_normal_price:
  assumes pk: "distinct (map i_item_id (tbl_item_prices d))"
    and r: "r \<in> set (tbl_item_prices d)"
    and ok: "buy e (i_game r) (i_item_id r) server_id zone_id (d, g) =
               (Inr (Deposit_html qr order_id amount), (d', g'))"
  shows "amount = i_normal_price r \<and>
     (\<exists>row. tbl_orders d' = tbl_orders d @ [row] \<and> o_order_id row = order_id \<and>
        o_amount row = i_normal_price r) \<and>
     (i_reseller_price r \<noteq> i_normal_price r \<longrightarrow> amount \<noteq> i_reseller_price r) \<and>
     fst (buy e (i_game r) (i_item_id r) server_id zone_id (d\<lparr>tbl_users := us\<rparr>, g)) =
       Inr (Deposit_html qr order_id amount)"
proof -
  from buy_Inr [OF ok] obtain a q h g1 oid where
    sel: "fetchone (map i_normal_price
        (filter (\<lambda>x. i_item_id x = i_item_id r \<and> i_game x = i_game r) (tbl_item_prices d))) = Some a"
    and resp: "Deposit_html qr order_id amount = Deposit_html q oid a"
    and d': "d' = d\<lparr>tbl_orders := tbl_orders d @
             [\<lparr>o_order_id = oid, o_user_id = 1, o_game = i_game r, o_item_id = i_item_id r,
               o_amount = a, o_server_id = server_id, o_zone_id = zone_id,
               o_md5 = h, o_status = ''UNPAID'', o_payment_response = None,
               o_created_at = now_iso e, o_paid_at = None\<rparr>]\<rparr>"
    by blast
  from sel select_price_key [OF pk r] have a: "a = i_normal_price r" by simp
  from resp have eq: "oid = order_id" "a = amount" by simp_all
  have users: "buy e (i_game r) (i_item_id r) server_id zone_id (d\<lparr>tbl_users := us\<rparr>, g) =
      (case buy e (i_game r) (i_item_id r) server_id zone_id (d, g) of
         (res, (d1, g1)) \<Rightarrow> (res, (d1\<lparr>tbl_users := us\<rparr>, g1)))"
    by (simp add: buy_def insert_order_def split: option.splits prod.splits sum.splits)
  from a eq have "amount = i_normal_price r" by simp
  moreover from d' a eq have "\<exists>row. tbl_orders d' = tbl_orders d @ [row] \<and>
      o_order_id row = order_id \<and> o_amount row = i_normal_price r"
    by simp
  moreover from users ok
  have "fst (buy e (i_game r) (i_item_id r) server_id zone_id (d\<lparr>tbl_users := us\<rparr>, g)) =
       Inr (Deposit_html qr order_id amount)"
    by simp
  ultimately show ?thesis by simp
qed

theorem buy_charges_normal_price_witness:
  "item1 \<in> set (tbl_item_prices db0) \<and> i_reseller_price item1 \<noteq> i_normal_price item1 \<and>
   fst (buy env0 ''MLBB'' ''344_DIAMOND'' ''1234'' ''5'' (db0, rng0)) =
     Inr (Deposit_html ''iVBORw0KGgo='' ''IJKLMNOP'' 6.4) \<and>
   (\<exists>row. tbl_orders (fst (snd (buy env0 ''MLBB'' ''344_DIAMOND'' ''1234'' ''5'' (db0, rng0)))) =
      tbl_orders db0 @ [row] \<and> o_order_id row = ''IJKLMNOP'' \<and> o_amount row = 6.4) \<and>
   fst (buy env0 ''MLBB'' ''344_DIAMOND'' ''1234'' ''5'' (db0\<lparr>tbl_users := users0\<rparr>, rng0)) =
     Inr (Deposit_html ''iVBORw0KGgo='' ''IJKLMNOP'' 6.4)"
proof -
  let ?b = "buy env0 (i_game item1) (i_item_id item1) ''1234'' ''5'' (db0, rng0)"
  have pk: "distinct (map i_item_id (tbl_item_prices db0))" by (simp add: eval_defs)
  have r: "item1 \<in> set (tbl_item_prices db0)" by (simp add: eval_defs item1_def)
  have res: "fst ?b = Inr (Deposit_html ''iVBORw0KGgo='' ''IJKLMNOP'' 6.4)"
    by (simp add: buy_eval item1_def)
  then have ok: "?b = (Inr (Deposit_html ''iVBORw0KGgo='' ''IJKLMNOP'' 6.4), (fst (snd ?b), snd (snd ?b)))"
    by (metis prod.collapse)
  from buy_charges_normal_price [OF pk r ok, of users0] r res show ?thesis
    by (simp add: item1_def)
qed

subsection \<open>Order status\<close>

text \<open>
  Claim C4. \<open>order_status\<close> answers 404 with the body \<open>{"error": "not found"}\<close> exactly
  when no order has the given id; for a stored order (the order id is the primary key) it
  answers with the stored status, payment response and payment time; and for the order
  a successful purchase has just created that is \<open>UNPAID\<close>, \<open>null\<close> and \<open>null\<close>.
\<close>

theorem order_status_found_iff:
  "(order_status d order_id = JSONResponse 404 (JObject [(''error'', JString ''not found'')])
      \<longleftrightarrow> order_id \<notin> set (map o_order_id (tbl_orders d))) \<and>
   (distinct (map o_order_id (tbl_orders d)) \<longrightarrow>
      (\<forall>r \<in> set (tbl_orders d). order_status d (o_order_id r) =
         JSONResponse 200 (JObject [(''status'', JString (o_status r)),
           (''payment_response'', opt_json (o_payment_response r)),
           (''paid_at'', opt_json (o_paid_at r))]))) \<and>
   (\<forall>e game item_id server_id zone_id g qr oid amount d' g'.
      buy e game item_id server_id zone_id (d, g) = (Inr (Deposit_html qr oid amount), (d', g'))
      \<longrightarrow> order_status d' oid =
            JSONResponse 200 (JObject [(''status'', JString ''UNPAID''),
              (''payment_response'', JNull), (''paid_at'', JNull)]))"
proof (intro conjI impI allI ballI)
  let ?rows = "filter (\<lambda>row. o_order_id row = order_id) (tbl_orders d)"
  show "order_status d order_id = JSONResponse 404 (JObject [(''error'', JString ''not found'')])
      \<longleftrightarrow> order_id \<notin> set (map o_order_id (tbl_orders d))"
  proof (cases ?rows)
    case Nil
    then have "order_id \<notin> set (map o_order_id (tbl_orders d))"
      by (auto simp: filter_empty_conv)
    with Nil show ?thesis by (simp add: order_status_def fetchone_def)
  next
    case (Cons row rest)
    then have "row \<in> set ?rows" by simp
    then have "order_id \<in> set (map o_order_id (tbl_orders d))" by force
    with Cons show ?thesis by (simp add: order_status_def fetchone_def)
  qed
next
  fix r
  assume "distinct (map o_order_id (tbl_orders d))" and "r \<in> set (tbl_orders d)"
  then have "filter (\<lambda>row. o_order_id row = o_order_id r) (tbl_orders d) = [r]"
    by (rule filter_key_distinct)
  then show "order_status d (o_order_id r) =
         JSONResponse 200 (JObject [(''status'', JString (o_status r)),
           (''payment_response'', opt_json (o_payment_response r)),
           (''paid_at'', opt_json (o_paid_at r))])"
    by (simp add: order_status_def fetchone_def)
next
  fix e game item_id server_id zone_id g qr oid amount d' g'
  assume ok: "buy e game item_id server_id zone_id (d, g) = (Inr (Deposit_html qr oid amount), (d', g'))"
  from buy_Inr [OF ok] obtain a h where
    fresh: "oid \<notin> set (map o_order_id (tbl_orders d))"
    and d': "d' = d\<lparr>tbl_orders := tbl_orders d @
             [\<lparr>o_order_id = oid, o_user_id = 1, o_game = game, o_item_id = item_id,
               o_amount = a, o_server_id = server_id, o_zone_id = zone_id,
               o_md5 = h, o_status = ''UNPAID'', o_payment_response = None,
               o_created_at = now_iso e, o_paid_at = None\<rparr>]\<rparr>"
    by auto
  from filter_key_absent [OF fresh] d'
  show "order_status d' oid =
            JSONResponse 200 (JObject [(''status'', JString ''UNPAID''),
              (''payment_response'', JNull), (''paid_at'', JNull)])"
    by (simp add: order_status_def fetchone_def opt_json_def)
qed

theorem order_status_found_iff_witness:
  "''UNKNOWN1'' \<notin> set (map o_order_id (tbl_orders db_orders)) \<and>
   order_status db_orders ''UNKNOWN1'' = JSONResponse 404 (JObject [(''error'', JString ''not found'')]) \<and>
   distinct (map o_order_id (tbl_orders db_orders)) \<and>
   order_status db_orders ''B81XW0PD'' =
     JSONResponse 200 (JObject [(''status'', JString ''PAID''), (''payment_response'', JString ''{}''),
       (''paid_at'', JString ''2024-05-02T09:31:12+07:00'')]) \<and>
   order_status (fst (snd (buy env0 ''MLBB'' ''86_DIAMOND'' ''1234'' ''5'' (db_orders, rng0)))) ''IJKLMNOP'' =
     JSONResponse 200 (JObject [(''status'', JString ''UNPAID''), (''payment_response'', JNull),
       (''paid_at'', JNull)])"
proof -
  let ?b = "buy env0 ''MLBB'' ''86_DIAMOND'' ''1234'' ''5'' (db_orders, rng0)"
  note t = order_status_found_iff [of db_orders "''UNKNOWN1''"]
  have a: "''UNKNOWN1'' \<notin> set (map o_order_id (tbl_orders db_orders))"
    by (simp add: sample_defs)
  have pk: "distinct (map o_order_id (tbl_orders db_orders))"
    by (simp add: sample_defs)
  have m: "order2 \<in> set (tbl_orders db_orders)" by (simp add: sample_defs)
  have "fst ?b = Inr (Deposit_html ''iVBORw0KGgo='' ''IJKLMNOP'' 0.03)"
    by (simp add: buy_eval sample_defs)
  then have ok: "?b = (Inr (Deposit_html ''iVBORw0KGgo='' ''IJKLMNOP'' 0.03), (fst (snd ?b), snd (snd ?b)))"
    by (metis prod.collapse)
  from t a have 1: "order_status db_orders ''UNKNOWN1'' =
      JSONResponse 404 (JObject [(''error'', JString ''not found'')])" by blast
  from t pk m have "order_status db_orders (o_order_id order2) =
      JSONResponse 200 (JObject [(''status'', JString (o_status order2)),
           (''payment_response'', opt_json (o_payment_response order2)),
           (''paid_at'', opt_json (o_paid_at order2))])" by blast
  then have 2: "order_status db_orders ''B81XW0PD'' =
     JSONResponse 200 (JObject [(''status'', JString ''PAID''), (''payment_response'', JString ''{}''),
       (''paid_at'', JString ''2024-05-02T09:31:12+07:00'')])"
    by (simp add: order2_def opt_json_def)
  from t ok have 3: "order_status (fst (snd ?b)) ''IJKLMNOP'' =
     JSONResponse 200 (JObject [(''status'', JString ''UNPAID''), (''payment_response'', JNull),
       (''paid_at'', JNull)])" by blast
  from a 1 pk 2 3 show ?thesis by simp
qed

text \<open>
  The answer, read off the status columns of the first row with the order id; that row
  is the same, up to the other columns, in two tables that agree on the status columns.
\<close>

lemma fetchone_status_columns:
  "map status_columns xs = map status_columns ys \<Longrightarrow>
   map_option status_columns (fetchone (filter (\<lambda>row. o_order_id row = k) xs)) =
   map_option status_columns (fetchone (filter (\<lambda>row. o_order_id row = k) ys))"
proof (induction xs arbitrary: ys)
  case Nil
  then show ?case by simp
next
  case (Cons x xs)
  then obtain y ys' where ys: "ys = y # ys'" by (cases ys) auto
  with Cons.prems have hd: "status_columns x = status_columns y"
    and tl: "map status_columns xs = map status_columns ys'" by simp_all
  from hd have id: "o_order_id x = o_order_id y" by (simp add: status_columns_def)
  show ?case
  proof (cases "o_order_id x = k")
    case True
    with id hd ys show ?thesis by (simp add: fetchone_def)
  next
    case False
    with id ys Cons.IH [OF tl] show ?thesis by simp
  qed
qed

lemma order_status_columns:
  "order_status d k =
     (case map_option status_columns (fetchone (filter (\<lambda>row. o_order_id row = k) (tbl_orders d))) of
        None \<Rightarrow> JSONResponse 404 (JObject [(''error'', JString ''not found'')])
      | Some (i, s, p, t) \<Rightarrow>
          JSONResponse 200 (JObject [(''status'', JString s),
            (''payment_response'', opt_json p), (''paid_at'', opt_json t)]))"
  by (simp add: order_status_def status_columns_def split: option.splits)

text \<open>
  Claim C9. The answer of \<open>order_status\<close> is a function of the order id and of the status
  columns of the stored rows: two databases whose orders agree on order id, status,
  payment response and payment time give the same answer, so changing the owner of any
  order, or the users table, changes nothing. The route takes no caller identity.
\<close>

theorem order_status_ignores_owner:
  "(map status_columns (tbl_orders d) = map status_columns (tbl_orders d') \<longrightarrow>
      order_status d order_id = order_status d' order_id) \<and>
   order_status (d\<lparr>tbl_users := us, tbl_orders := map (\<lambda>r. r\<lparr>o_user_id := owner r\<rparr>) (tbl_orders d)\<rparr>)
      order_id = order_status d order_id"
proof -
  have a: "order_status x order_id = order_status y order_id"
    if "map status_columns (tbl_orders x) = map status_columns (tbl_orders y)" for x y
    using fetchone_status_columns [OF that, of order_id]
    by (simp only: order_status_columns)
  have "map status_columns
          (tbl_orders (d\<lparr>tbl_users := us, tbl_orders := map (\<lambda>r. r\<lparr>o_user_id := owner r\<rparr>) (tbl_orders d)\<rparr>))
        = map status_columns (tbl_orders d)"
    by (simp add: status_columns_def)
  from a [OF this] a show ?thesis by blast
qed

theorem order_status_ignores_owner_witness:
  "map status_columns (tbl_orders db_orders) =
     map status_columns (tbl_orders (db_orders\<lparr>tbl_orders := [order1, order2\<lparr>o_user_id := 1\<rparr>, order3]\<rparr>)) \<and>
   order_status db_orders ''B81XW0PD'' =
     order_status (db_orders\<lparr>tbl_orders := [order1, order2\<lparr>o_user_id := 1\<rparr>, order3]\<rparr>) ''B81XW0PD'' \<and>
   order_status db_orders ''B81XW0PD'' =
     JSONResponse 200 (JObject [(''status'', JString ''PAID''), (''payment_response'', JString ''{}''),
       (''paid_at'', JString ''2024-05-02T09:31:12+07:00'')])"
proof -
  have c: "map status_columns (tbl_orders db_orders) =
     map status_columns (tbl_orders (db_orders\<lparr>tbl_orders := [order1, order2\<lparr>o_user_id := 1\<rparr>, order3]\<rparr>))"
    by (simp add: sample_defs status_columns_def)
  have v: "order_status db_orders ''B81XW0PD'' =
     JSONResponse 200 (JObject [(''status'', JString ''PAID''), (''payment_response'', JString ''{}''),
       (''paid_at'', JString ''2024-05-02T09:31:12+07:00'')])"
    by (simp add: sample_defs order_status_def fetchone_def opt_json_def)
  from order_status_ignores_owner
    [of db_orders "db_orders\<lparr>tbl_orders := [order1, order2\<lparr>o_user_id := 1\<rparr>, order3]\<rparr>" "''B81XW0PD''"] c
  have "order_status db_orders ''B81XW0PD'' =
     order_status (db_orders\<lparr>tbl_orders := [order1, order2\<lparr>o_user_id := 1\<rparr>, order3]\<rparr>) ''B81XW0PD''"
    by blast
  with c v show ?thesis by simp
qed

subsection \<open>Listing orders\<close>



subsection \<open>The reseller flag\<close>



subsection \<open>Seeding\<close>

lemma executemany_Cons:
  "executemany (r # rows) tbl = executemany rows (insert_or_ignore r tbl)"
  by (simp add: executemany_def)

lemma executemany_appends:
  "\<exists>new. executemany rows tbl = tbl @ new \<and>
     (\<forall>r \<in> set new. r \<in> set rows \<and> i_item_id r \<notin> set (map i_item_id tbl))"
proof (induction rows arbitrary: tbl)
  case Nil
  then show ?case by (simp add: executemany_def)
next
  case (Cons r rows)
  from Cons.IH [of "insert_or_ignore r tbl"] obtain new where
    e: "executemany rows (insert_or_ignore r tbl) = insert_or_ignore r tbl @ new"
    and n: "\<forall>x \<in> set new. x \<in> set rows \<and> i_item_id x \<notin> set (map i_item_id (insert_or_ignore r tbl))"
    by blast
  show ?case
  proof (cases "i_item_id r \<in> set (map i_item_id tbl)")
    case True
    then have "insert_or_ignore r tbl = tbl" by (simp add: insert_or_ignore_def)
    with e n show ?thesis by (auto simp: executemany_Cons)
  next
    case False
    then have i: "insert_or_ignore r tbl = tbl @ [r]" by (simp add: insert_or_ignore_def)
    with e have "executemany (r # rows) tbl = tbl @ (r # new)"
      by (simp add: executemany_Cons)
    moreover from n i False
    have "\<forall>x \<in> set (r # new). x \<in> set (r # rows) \<and> i_item_id x \<notin> set (map i_item_id tbl)"
      by auto
    ultimately show ?thesis by blast
  qed
qed

lemma executemany_keys:
  "set (map i_item_id (executemany rows tbl)) = set (map i_item_id tbl) \<union> set (map i_item_id rows)"
proof (induction rows arbitrary: tbl)
  case Nil
  then show ?case by (simp add: executemany_def)
next
  case (Cons r rows)
  have "set (map i_item_id (insert_or_ignore r tbl)) = insert (i_item_id r) (set (map i_item_id tbl))"
    by (auto simp: insert_or_ignore_def)
  with Cons.IH [of "insert_or_ignore r tbl"] show ?case
    by (simp add: executemany_Cons)
qed

lemma executemany_present:
  "set (map i_item_id rows) \<subseteq> set (map i_item_id tbl) \<Longrightarrow> executemany rows tbl = tbl"
proof (induction rows)
  case Nil
  then show ?case by (simp add: executemany_def)
next
  case (Cons r rows)
  then have "insert_or_ignore r tbl = tbl" by (simp add: insert_or_ignore_def)
  with Cons show ?case by (simp add: executemany_Cons)
qed

lemma executemany_distinct:
  "distinct (map i_item_id tbl) \<Longrightarrow> distinct (map i_item_id (executemany rows tbl))"
proof (induction rows arbitrary: tbl)
  case Nil
  then show ?case by (simp add: executemany_def)
next
  case (Cons r rows)
  from Cons.prems have "distinct (map i_item_id (insert_or_ignore r tbl))"
    by (simp add: insert_or_ignore_def)
  from Cons.IH [OF this] show ?case by (simp add: executemany_Cons)
qed

lemma init_db_idem: "init_db (init_db d) = init_db d"
proof -
  have "set (map i_item_id items) \<subseteq> set (map i_item_id (executemany items (tbl_item_prices d)))"
    using executemany_keys [of items "tbl_item_prices d"] by blast
  then have "executemany items (executemany items (tbl_item_prices d)) =
      executemany items (tbl_item_prices d)"
    by (rule executemany_present)
  then show ?thesis by (simp add: init_db_def)
qed

lemma init_db_funpow: "(init_db ^^ Suc n) d = init_db d"
  by (induction n) (simp_all add: init_db_idem)

text \<open>
  Claim C6. Running \<open>init_db\<close> again, any number of times, gives the database of the first
  run. A run leaves users and orders alone and only appends to \<open>item_prices\<close>: every row
  already there stays as it is, every appended row is a seed row whose item id was not
  there, and distinct item ids stay distinct. When all seed item ids are present, as they
  are after the first run whatever the prices have been edited to, a run changes nothing.
\<close>

theorem init_db_idempotent:
  "(init_db ^^ Suc n) d = init_db d \<and>
   tbl_users (init_db d) = tbl_users d \<and> tbl_orders (init_db d) = tbl_orders d \<and>
   (\<exists>new. tbl_item_prices (init_db d) = tbl_item_prices d @ new \<and>
      (\<forall>r \<in> set new. r \<in> set items \<and> i_item_id r \<notin> set (map i_item_id (tbl_item_prices d)))) \<and>
   (distinct (map i_item_id (tbl_item_prices d)) \<longrightarrow>
      distinct (map i_item_id (tbl_item_prices (init_db d)))) \<and>
   (set (map i_item_id items) \<subseteq> set (map i_item_id (tbl_item_prices d)) \<longrightarrow> init_db d = d)"
proof (intro conjI impI)
  show "(init_db ^^ Suc n) d = init_db d" by (rule init_db_funpow)
  show "tbl_users (init_db d) = tbl_users d" by (simp add: init_db_def)
  show "tbl_orders (init_db d) = tbl_orders d" by (simp add: init_db_def)
  show "\<exists>new. tbl_item_prices (init_db d) = tbl_item_prices d @ new \<and>
      (\<forall>r \<in> set new. r \<in> set items \<and> i_item_id r \<notin> set (map i_item_id (tbl_item_prices d)))"
    using executemany_appends [of items "tbl_item_prices d"] by (simp add: init_db_def)
  show "distinct (map i_item_id (tbl_item_prices (init_db d)))"
    if "distinct (map i_item_id (tbl_item_prices d))"
    using executemany_distinct [OF that] by (simp add: init_db_def)
  show "init_db d = d" if "set (map i_item_id items) \<subseteq> set (map i_item_id (tbl_item_prices d))"
    using executemany_present [OF that] by (simp add: init_db_def)
qed

theorem init_db_idempotent_witness:
  "set (map i_item_id items) \<subseteq> set (map i_item_id (tbl_item_prices db_edited)) \<and>
   init_db db_edited = db_edited \<and>
   map i_normal_price (tbl_item_prices (init_db db_edited)) = [0.05, 0.03, 6.4, 8.0, 1.0, 2.0] \<and>
   distinct (map i_item_id (tbl_item_prices (init_db empty_db))) \<and>
   (init_db ^^ Suc 2) empty_db = init_db empty_db"
proof -
  have s: "set (map i_item_id items) \<subseteq> set (map i_item_id (tbl_item_prices db_edited))"
    by (simp add: eval_defs db_edited_def)
  have p: "map i_normal_price (tbl_item_prices db_edited) = [0.05, 0.03, 6.4, 8.0, 1.0, 2.0]"
    by (simp add: eval_defs db_edited_def)
  have e: "distinct (map i_item_id (tbl_item_prices empty_db))" by (simp add: empty_db_def)
  note t1 = init_db_idempotent [of 2 db_edited]
  note t2 = init_db_idempotent [of 2 empty_db]
  from t1 s have i: "init_db db_edited = db_edited" by blast
  from t2 e have d: "distinct (map i_item_id (tbl_item_prices (init_db empty_db)))" by blast
  from t2 have f: "(init_db ^^ Suc 2) empty_db = init_db empty_db" by blast
  from s i p d f show ?thesis by simp
qed

subsection \<open>What the routes write\<close>

text \<open>The primary keys hold of the empty database and are kept by the seed and by every route.\<close>

lemma primary_keys_empty_db: "primary_keys empty_db"
  by (simp add: primary_keys_def empty_db_def)

lemma primary_keys_init_db: "primary_keys d \<Longrightarrow> primary_keys (init_db d)"
  by (simp add: primary_keys_def init_db_def executemany_distinct)

lemma primary_keys_handle:
  assumes "primary_keys d" and "handle e req (d, g) = (res, (d', g'))"
  shows "primary_keys d'"
proof (cases req)
  case (POST_buy game item_id server_id zone_id)
  with assms have b: "buy e game item_id server_id zone_id (d, g) = (res, (d', g'))" by simp
  show ?thesis
  proof (cases res)
    case (Inl err)
    with b have "d' = d" by (simp add: buy_Inl)
    with assms show ?thesis by simp
  next
    case (Inr page)
    from buy_Inr [OF b [unfolded Inr]] obtain row where
      "d' = d\<lparr>tbl_orders := tbl_orders d @ [row]\<rparr>"
      "o_order_id row \<notin> set (map o_order_id (tbl_orders d))"
      by force
    with assms show ?thesis by (simp add: primary_keys_def)
  qed
qed (use assms in auto)



end
